theory Spec2Isabelle
  imports Main
begin

section \<open>Data model\<close>

text \<open>
  Timestamps are the millisecond time values of JavaScript \<open>Date\<close> objects
  (\<open>Date.now()\<close>, \<open>new Date()\<close>, the \<open>INTEGER\<close> columns of the tables).
\<close>

type_synonym timestamp = int

text \<open>The \<open>sync_status\<close> column: \<open>'pending' | 'synced' | 'error'\<close>.\<close>

datatype sync_status = Pending | Synced | Error

text \<open>The \<open>action\<close> of a queue entry: \<open>'create' | 'update' | 'delete'\<close>.\<close>

datatype operation = Create | Update | Delete

text \<open>A row of table \<open>tasks\<close>, the \<open>Task\<close> of the services.\<close>

record task =
  id_task :: string
  title :: string
  description :: string
  completed :: bool
  created_at :: timestamp
  updated_at :: timestamp
  is_deleted :: bool
  sync_status :: sync_status
  server_id :: "string option"
  last_synced_at :: "timestamp option"

text \<open>
  \<open>Partial<Task>\<close>: every key may be absent (\<open>None\<close>). The two nullable columns
  carry a second option: \<open>Some None\<close> is a key that is present and null.
\<close>

record partial_task =
  id_opt :: "string option"
  title_opt :: "string option"
  description_opt :: "string option"
  completed_opt :: "bool option"
  created_at_opt :: "timestamp option"
  updated_at_opt :: "timestamp option"
  is_deleted_opt :: "bool option"
  sync_status_opt :: "sync_status option"
  server_id_opt :: "string option option"
  last_synced_at_opt :: "timestamp option option"

text \<open>
  A row of table \<open>sync_queue\<close>, and the \<open>SyncQueueItem\<close> the sync service reads
  (the module \<open>../types\<close> that declares it is not among the sources). The
  record carries the columns of the table as \<open>Database\<close> creates and writes it:
  \<open>queue_id\<close>, \<open>task_id\<close>, \<open>action\<close> (field \<open>operation\<close>), \<open>updated_at\<close>,
  \<open>status\<close>, \<open>retry_count\<close>, \<open>error_message\<close> (field \<open>error\<close>); and the further
  fields \<open>SyncService\<close> reads of an item: \<open>id\<close>, \<open>data\<close>, \<open>permanent_fail\<close>. No
  statement that runs writes one of these three: in a stored row they keep the
  value given on insert (a running row number, null, unset).
\<close>

record sync_queue_item =
  id_item :: nat
  queue_id :: "string option"
  task_id :: string
  operation :: operation
  data :: "partial_task option"
  updated_at_item :: "timestamp option"
  status_item :: "string option"
  retry_count :: nat
  error :: "string option"
  permanent_fail :: bool

text \<open>
  The state a service call runs in: the two tables, the number of clock
  readings taken so far, and the log of the batch requests posted to the
  remote authority.
\<close>

record world =
  tasks :: "task list"
  sync_queue :: "sync_queue_item list"
  reads :: nat
  posts :: "(string \<times> operation \<times> partial_task option) list list"

text \<open>What a rejected promise carries.\<close>

datatype exn = SQLITE_CONSTRAINT | TypeError | AxiosError

section \<open>Clock\<close>

text \<open>
  The clock is a parameter: \<open>clock n\<close> is the value of the \<open>n\<close>-th reading
  (\<open>Date.now()\<close>, \<open>new Date()\<close>, \<open>CURRENT_TIMESTAMP\<close>).
\<close>

definition now :: "(nat \<Rightarrow> timestamp) \<Rightarrow> world \<Rightarrow> timestamp \<times> world" where
  "now clock w = (clock (reads w), w\<lparr>reads := reads w + 1\<rparr>)"

text \<open>Decimal rendering of a number inside a template literal.\<close>

fun show_nat :: "nat \<Rightarrow> string" where
  "show_nat n =
     (if n < 10 then [char_of (48 + n)]
      else show_nat (n div 10) @ [char_of (48 + n mod 10)])"

definition show_int :: "int \<Rightarrow> string" where
  "show_int i = (if i < 0 then CHR ''-'' # show_nat (nat (- i)) else show_nat (nat i))"

section \<open>Database\<close>

definition getTask_db :: "string \<Rightarrow> world \<Rightarrow> task option" where
  \<comment> \<open>\<open>SELECT * FROM tasks WHERE id = ?\<close>, first row\<close>
  "getTask_db k w = find (\<lambda>r. id_task r = k) (tasks w)"

definition insertTask :: "task \<Rightarrow> world \<Rightarrow> (exn + unit) \<times> world" where
  \<comment> \<open>\<open>id TEXT PRIMARY KEY\<close>: a second row with the same id is refused\<close>
  "insertTask t w =
     (if \<exists>r \<in> set (tasks w). id_task r = id_task t then (Inl SQLITE_CONSTRAINT, w)
      else (Inr (), w\<lparr>tasks := tasks w @ [t]\<rparr>))"

definition updateTask_db :: "task \<Rightarrow> world \<Rightarrow> world" where
  \<comment> \<open>\<open>UPDATE tasks SET title=?, ... WHERE id = ?\<close>; \<open>created_at\<close> is not written\<close>
  "updateTask_db t w =
     w\<lparr>tasks := map (\<lambda>r. if id_task r = id_task t
                           then r\<lparr>title := title t, description := description t,
                                  completed := completed t, updated_at := updated_at t,
                                  is_deleted := is_deleted t, sync_status := sync_status t,
                                  server_id := server_id t, last_synced_at := last_synced_at t\<rparr>
                           else r) (tasks w)\<rparr>"

definition next_id :: "sync_queue_item list \<Rightarrow> nat" where
  \<comment> \<open>the key given to an inserted row: one more than the largest key in the table\<close>
  "next_id q = fold max (map id_item q) 0 + 1"

definition addToSyncQueue_db ::
  "(nat \<Rightarrow> timestamp) \<Rightarrow> string \<Rightarrow> operation \<Rightarrow> timestamp \<Rightarrow> world \<Rightarrow> (exn + unit) \<times> world" where
  \<comment> \<open>\<open>queueId = `${data.id}-${Date.now()}`\<close>; \<open>queue_id TEXT PRIMARY KEY\<close>;
      \<open>retry_count\<close> takes its column default 0\<close>
  "addToSyncQueue_db clock ident act upd w =
     (let (t, w1) = now clock w;
          queueId = ident @ ''-'' @ show_int t
      in if \<exists>r \<in> set (sync_queue w1). queue_id r = Some queueId
         then (Inl SQLITE_CONSTRAINT, w1)
         else (Inr (), w1\<lparr>sync_queue := sync_queue w1 @
                 [\<lparr>id_item = next_id (sync_queue w1), queue_id = Some queueId,
                   task_id = ident, operation = act, data = None,
                   updated_at_item = Some upd, status_item = Some ''pending'',
                   retry_count = 0, error = None, permanent_fail = False\<rparr>]\<rparr>))"

section \<open>TaskService\<close>

definition spread :: "task \<Rightarrow> partial_task \<Rightarrow> task" where
  \<comment> \<open>\<open>{...existing, ...updates}\<close>\<close>
  "spread existing updates =
     \<lparr>id_task = (case id_opt updates of None \<Rightarrow> id_task existing | Some v \<Rightarrow> v),
      title = (case title_opt updates of None \<Rightarrow> title existing | Some v \<Rightarrow> v),
      description = (case description_opt updates of None \<Rightarrow> description existing | Some v \<Rightarrow> v),
      completed = (case completed_opt updates of None \<Rightarrow> completed existing | Some v \<Rightarrow> v),
      created_at = (case created_at_opt updates of None \<Rightarrow> created_at existing | Some v \<Rightarrow> v),
      updated_at = (case updated_at_opt updates of None \<Rightarrow> updated_at existing | Some v \<Rightarrow> v),
      is_deleted = (case is_deleted_opt updates of None \<Rightarrow> is_deleted existing | Some v \<Rightarrow> v),
      sync_status = (case sync_status_opt updates of None \<Rightarrow> sync_status existing | Some v \<Rightarrow> v),
      server_id = (case server_id_opt updates of None \<Rightarrow> server_id existing | Some v \<Rightarrow> v),
      last_synced_at =
        (case last_synced_at_opt updates of None \<Rightarrow> last_synced_at existing | Some v \<Rightarrow> v)\<rparr>"

definition as_partial :: "task \<Rightarrow> partial_task" where
  \<comment> \<open>a whole \<open>Task\<close> passed where \<open>Partial<Task>\<close> is expected: every key present\<close>
  "as_partial t =
     \<lparr>id_opt = Some (id_task t), title_opt = Some (title t),
      description_opt = Some (description t), completed_opt = Some (completed t),
      created_at_opt = Some (created_at t), updated_at_opt = Some (updated_at t),
      is_deleted_opt = Some (is_deleted t), sync_status_opt = Some (sync_status t),
      server_id_opt = Some (server_id t), last_synced_at_opt = Some (last_synced_at t)\<rparr>"

definition createTask ::
  "(nat \<Rightarrow> timestamp) \<Rightarrow> string \<Rightarrow> partial_task \<Rightarrow> world \<Rightarrow> (exn + task) \<times> world" where
  \<comment> \<open>\<open>uuid\<close> is the value \<open>uuidv4()\<close> returns; an absent \<open>taskData.title\<close> is
      refused by \<open>title TEXT NOT NULL\<close>\<close>
  "createTask clock uuid taskData w =
     (let (timestamp, w1) = now clock w;
          (c, w2) = now clock w1;
          (u, w3) = now clock w2;
          t = \<lparr>id_task = uuid,
               title = (case title_opt taskData of None \<Rightarrow> [] | Some v \<Rightarrow> v),
               description = (case description_opt taskData of None \<Rightarrow> [] | Some v \<Rightarrow> v),
               completed = False, created_at = c, updated_at = u, is_deleted = False,
               sync_status = Pending, server_id = None, last_synced_at = None\<rparr>
      in case (if title_opt taskData = None then (Inl SQLITE_CONSTRAINT, w3)
               else insertTask t w3) of
           (Inl e, w4) \<Rightarrow> (Inl e, w4)
         | (Inr _, w4) \<Rightarrow>
             (case addToSyncQueue_db clock uuid Create timestamp w4 of
                (Inl e, w5) \<Rightarrow> (Inl e, w5)
              | (Inr _, w5) \<Rightarrow> (Inr t, w5)))"

definition updateTask ::
  "(nat \<Rightarrow> timestamp) \<Rightarrow> string \<Rightarrow> partial_task \<Rightarrow> world \<Rightarrow> (exn + task option) \<times> world" where
  "updateTask clock ident updates w =
     (case getTask_db ident w of
        None \<Rightarrow> (Inr None, w)
      | Some existing \<Rightarrow>
          if is_deleted existing then (Inr None, w)
          else
            (let (u, w1) = now clock w;
                 updatedTask = (spread existing updates)\<lparr>updated_at := u, sync_status := Pending\<rparr>;
                 w2 = updateTask_db updatedTask w1;
                 (q, w3) = now clock w2
             in case addToSyncQueue_db clock ident Update q w3 of
                  (Inl e, w4) \<Rightarrow> (Inl e, w4)
                | (Inr _, w4) \<Rightarrow> (Inr (Some updatedTask), w4)))"

definition deleteTask ::
  "(nat \<Rightarrow> timestamp) \<Rightarrow> string \<Rightarrow> world \<Rightarrow> (exn + bool) \<times> world" where
  "deleteTask clock ident w =
     (case getTask_db ident w of
        None \<Rightarrow> (Inr False, w)
      | Some existing \<Rightarrow>
          (let (u, w1) = now clock w;
               updatedTask = existing\<lparr>is_deleted := True, updated_at := u, sync_status := Pending\<rparr>;
               w2 = updateTask_db updatedTask w1;
               (q, w3) = now clock w2
           in case addToSyncQueue_db clock ident Delete q w3 of
                (Inl e, w4) \<Rightarrow> (Inl e, w4)
              | (Inr _, w4) \<Rightarrow> (Inr True, w4)))"

definition getTask :: "string \<Rightarrow> world \<Rightarrow> task option" where
  "getTask ident w =
     (case getTask_db ident w of
        None \<Rightarrow> None
      | Some t \<Rightarrow> if is_deleted t then None else Some t)"

section \<open>SyncService\<close>

text \<open>
  One entry of a batch request, \<open>{taskId, operation, data}\<close>, and one entry of
  a batch response, \<open>{taskId, status, data?, serverData?, message?}\<close>. In
  \<open>message\<close>, \<open>None\<close> is an absent key and \<open>Some None\<close> is null.
\<close>

type_synonym sync_op = "string \<times> operation \<times> partial_task option"

record sync_item_result =
  taskId :: string
  status :: string
  data_res :: "partial_task option"
  serverData :: "task option"
  message :: "string option option"

text \<open>
  The remote authority is a parameter: given the requests posted before, the
  address and the request, it answers with the \<open>results\<close> of the response, or
  \<open>None\<close> when the promise of \<open>axios.post\<close> is rejected or the response has no
  iterable \<open>results\<close>.
\<close>

type_synonym remote = "sync_op list list \<Rightarrow> string \<Rightarrow> sync_op list \<Rightarrow> sync_item_result list option"

record config =
  apiUrl :: string
  SYNC_BATCH_SIZE :: nat

definition MAX_RETRY :: nat where
  "MAX_RETRY = 3"

record sync_result =
  success :: nat
  failed :: nat
  skipped :: nat

text \<open>
  \<open>this.db.query(sql, params)\<close>. Class \<open>Database\<close> has the methods \<open>run\<close>, \<open>get\<close>
  and \<open>all\<close> and the task and queue operations above, and no method \<open>query\<close>:
  \<open>this.db.query\<close> is undefined, and calling it throws a \<open>TypeError\<close> whatever
  the statement and its parameters are. Inside an \<open>async\<close> method the promise is
  rejected; nothing is read or written.
\<close>

definition query :: "string \<Rightarrow> world \<Rightarrow> (exn + 'a) \<times> world" where
  "query sql w = (Inl TypeError, w)"

definition addToSyncQueue ::
  "string \<Rightarrow> operation \<Rightarrow> partial_task \<Rightarrow> world \<Rightarrow> (exn + unit) \<times> world" where
  "addToSyncQueue ident op d w =
     query ''INSERT INTO sync_queue(task_id, operation, data, retry_count) VALUES (?, ?, ?, 0)'' w"

definition resolveConflict :: "task \<Rightarrow> task \<Rightarrow> task" where
  "resolveConflict localTask serverTask =
     (if updated_at localTask > updated_at serverTask then localTask else serverTask)"

definition updateSyncStatus ::
  "(nat \<Rightarrow> timestamp) \<Rightarrow> string \<Rightarrow> sync_status \<Rightarrow> partial_task option \<Rightarrow> world
     \<Rightarrow> (exn + unit) \<times> world" where
  "updateSyncStatus clock ident st sd w =
     (if st = Synced then
        (case query ''UPDATE tasks SET sync_status='synced', last_synced_at=CURRENT_TIMESTAMP WHERE id=?'' w of
           (Inl e, w1) \<Rightarrow> (Inl e, w1)
         | (Inr (u1 :: unit), w1) \<Rightarrow>
             (case query ''DELETE FROM sync_queue WHERE task_id=?'' w1 of
                (Inl e, w2) \<Rightarrow> (Inl e, w2)
              | (Inr (u2 :: unit), w2) \<Rightarrow>
                  (case sd of
                     None \<Rightarrow> (Inr (), w2)
                   | Some d \<Rightarrow>
                       (case updateTask clock ident d w2 of
                          (Inl e, w3) \<Rightarrow> (Inl e, w3)
                        | (Inr _, w3) \<Rightarrow> (Inr (), w3)))))
      else query ''UPDATE tasks SET sync_status='error' WHERE id=?'' w)"

definition handleSyncError :: "sync_queue_item \<Rightarrow> string \<Rightarrow> world \<Rightarrow> (exn + unit) \<times> world" where
  \<comment> \<open>the string is \<open>error.message\<close>\<close>
  "handleSyncError item m w =
     (let retry = retry_count item + 1;
          msg = (if m = [] then ''Unknown sync error'' else m)
      in if retry \<ge> MAX_RETRY
         then query ''UPDATE sync_queue SET retry_count=?, error=?, permanent_fail=1 WHERE id=?'' w
         else query ''UPDATE sync_queue SET retry_count=?, error=? WHERE id=?'' w)"

definition error_message :: "string option option \<Rightarrow> string" where
  \<comment> \<open>the message of \<open>new Error(res.message)\<close>: empty for an absent message, the text
      \<open>null\<close> for null\<close>
  "error_message m = (case m of None \<Rightarrow> [] | Some None \<Rightarrow> ''null'' | Some (Some s) \<Rightarrow> s)"

definition process_result ::
  "(nat \<Rightarrow> timestamp) \<Rightarrow> sync_queue_item list \<Rightarrow> sync_item_result \<Rightarrow> nat \<times> nat \<Rightarrow> world
     \<Rightarrow> (exn + nat \<times> nat) \<times> world" where
  \<comment> \<open>the body of the loop over \<open>results.results\<close>; the pair is \<open>(success, failed)\<close>.
      Reading \<open>updated_at\<close> of a null local task or of an absent \<open>serverData\<close> throws\<close>
  "process_result clock items res sf w =
     (case find (\<lambda>i. task_id i = taskId res) items of
        None \<Rightarrow> (Inr sf, w)
      | Some item \<Rightarrow>
          if status res = ''success'' then
            (case updateSyncStatus clock (task_id item) Synced (data_res res) w of
               (Inl e, w1) \<Rightarrow> (Inl e, w1)
             | (Inr _, w1) \<Rightarrow> (Inr (fst sf + 1, snd sf), w1))
          else if status res = ''conflict'' then
            (case getTask (task_id item) w of
               None \<Rightarrow> (Inl TypeError, w)
             | Some localTask \<Rightarrow>
                 (case serverData res of
                    None \<Rightarrow> (Inl TypeError, w)
                  | Some serverTask \<Rightarrow>
                      (case updateTask clock (task_id item)
                              (as_partial (resolveConflict localTask serverTask)) w of
                         (Inl e, w1) \<Rightarrow> (Inl e, w1)
                       | (Inr _, w1) \<Rightarrow>
                           (case updateSyncStatus clock (task_id item) Synced None w1 of
                              (Inl e, w2) \<Rightarrow> (Inl e, w2)
                            | (Inr _, w2) \<Rightarrow> (Inr (fst sf + 1, snd sf), w2)))))
          else
            (case handleSyncError item (error_message (message res)) w of
               (Inl e, w1) \<Rightarrow> (Inl e, w1)
             | (Inr _, w1) \<Rightarrow> (Inr (fst sf, snd sf + 1), w1)))"

fun process_results ::
  "(nat \<Rightarrow> timestamp) \<Rightarrow> sync_queue_item list \<Rightarrow> sync_item_result list \<Rightarrow> nat \<times> nat \<Rightarrow> world
     \<Rightarrow> (exn + nat \<times> nat) \<times> world" where
  "process_results clock items [] sf w = (Inr sf, w)"
| "process_results clock items (res # rest) sf w =
     (case process_result clock items res sf w of
        (Inl e, w1) \<Rightarrow> (Inl e, w1)
      | (Inr sf1, w1) \<Rightarrow> process_results clock items rest sf1 w1)"

definition op_of :: "sync_queue_item \<Rightarrow> sync_op" where
  \<comment> \<open>\<open>{taskId: i.task_id, operation: i.operation, data: JSON.parse(i.data)}\<close>\<close>
  "op_of i = (task_id i, operation i, data i)"

definition processBatch ::
  "(nat \<Rightarrow> timestamp) \<Rightarrow> remote \<Rightarrow> string \<Rightarrow> sync_queue_item list \<Rightarrow> world
     \<Rightarrow> (exn + nat \<times> nat) \<times> world" where
  "processBatch clock remote url items w =
     (let req = map op_of items;
          w1 = w\<lparr>posts := posts w @ [req]\<rparr>
      in case remote (posts w) (url @ ''/tasks/batch'') req of
           None \<Rightarrow> (Inl AxiosError, w1)
         | Some results \<Rightarrow> process_results clock items results (0, 0) w1)"

text \<open>
  The loop that cuts the queue into batches,
  \<open>for (let i = 0; i < queue.length; i += SYNC_BATCH_SIZE) batches.push(queue.slice(i, i + SYNC_BATCH_SIZE))\<close>.
  With a batch size of 0 it never ends: the value is \<open>None\<close>.
\<close>

definition slice :: "nat \<Rightarrow> nat \<Rightarrow> 'a list \<Rightarrow> 'a list" where
  "slice i j xs = take (j - i) (drop i xs)"

partial_function (option) batches_loop ::
  "nat \<Rightarrow> 'a list \<Rightarrow> nat \<Rightarrow> 'a list list \<Rightarrow> 'a list list option" where
  "batches_loop b queue i batches =
     (if i < length queue
      then batches_loop b queue (i + b) (batches @ [slice i (i + b) queue])
      else Some batches)"

text \<open>
  The \<open>catch\<close> block of the loop over the batches:
  \<open>for (const item of batch) { await this.handleSyncError(item, new Error("Batch failed")); failed++; }\<close>.
  What \<open>handleSyncError\<close> throws here is thrown by \<open>sync()\<close>.
\<close>

fun fail_items :: "sync_queue_item list \<Rightarrow> nat \<Rightarrow> world \<Rightarrow> (exn + nat) \<times> world" where
  "fail_items [] f w = (Inr f, w)"
| "fail_items (item # rest) f w =
     (case handleSyncError item ''Batch failed'' w of
        (Inl e, w1) \<Rightarrow> (Inl e, w1)
      | (Inr _, w1) \<Rightarrow> fail_items rest (f + 1) w1)"

fun run_batches ::
  "(nat \<Rightarrow> timestamp) \<Rightarrow> remote \<Rightarrow> string \<Rightarrow> sync_queue_item list list \<Rightarrow> nat \<times> nat \<Rightarrow> world
     \<Rightarrow> (exn + nat \<times> nat) \<times> world" where
  "run_batches clock remote url [] sf w = (Inr sf, w)"
| "run_batches clock remote url (batch # rest) sf w =
     (case processBatch clock remote url batch w of
        (Inr r, w1) \<Rightarrow> run_batches clock remote url rest (fst sf + fst r, snd sf + snd r) w1
      | (Inl e, w1) \<Rightarrow>
          (case fail_items batch (snd sf) w1 of
             (Inl e', w2) \<Rightarrow> (Inl e', w2)
           | (Inr f, w2) \<Rightarrow> run_batches clock remote url rest (fst sf, f) w2))"

text \<open>
  \<open>sync()\<close>. Its first statement, outside the \<open>try\<close>, is the \<open>db.query\<close> that is to
  read the queue. The value is \<open>None\<close> when the call does not return, \<open>Inl\<close> when
  its promise is rejected.
\<close>

definition sync ::
  "config \<Rightarrow> (nat \<Rightarrow> timestamp) \<Rightarrow> remote \<Rightarrow> world \<Rightarrow> ((exn + sync_result) \<times> world) option" where
  "sync cfg clock remote w =
     (case query ''SELECT * FROM sync_queue ORDER BY id ASC'' w of
        (Inl e, w0) \<Rightarrow> Some (Inl e, w0)
      | (Inr queue, w0) \<Rightarrow>
          if length queue = 0 then Some (Inr \<lparr>success = 0, failed = 0, skipped = 0\<rparr>, w0)
          else
            (case batches_loop (SYNC_BATCH_SIZE cfg) queue 0 [] of
               None \<Rightarrow> None
             | Some batches \<Rightarrow>
                 (case run_batches clock remote (apiUrl cfg) batches (0, 0) w0 of
                    (Inl e, w1) \<Rightarrow> Some (Inl e, w1)
                  | (Inr sf, w1) \<Rightarrow>
                      Some (Inr \<lparr>success = fst sf, failed = snd sf, skipped = 0\<rparr>, w1))))"

definition checkConnectivity :: "(string \<Rightarrow> nat \<Rightarrow> exn + unit) \<Rightarrow> string \<Rightarrow> world \<Rightarrow> bool \<times> world" where
  \<comment> \<open>\<open>axios.get(`${this.apiUrl}/health`, { timeout: 5000 })\<close>: the second argument
      of the client is the timeout in milliseconds, its value the settled promise\<close>
  "checkConnectivity axios_get url w =
     (case axios_get (url @ ''/health'') 5000 of
        Inr _ \<Rightarrow> (True, w)
      | Inl _ \<Rightarrow> (False, w))"

section \<open>Reference definitions\<close>

text \<open>
  The reference partition the batching loop is compared with: cut off the
  first \<open>b\<close> elements until nothing is left.
\<close>

fun chunks :: "nat \<Rightarrow> 'a list \<Rightarrow> 'a list list" where
  "chunks b xs = (if b = 0 \<or> xs = [] then [] else take b xs # chunks b (drop b xs))"

section \<open>Example inputs\<close>

definition no_updates :: partial_task where
  "no_updates =
     \<lparr>id_opt = None, title_opt = None, description_opt = None, completed_opt = None,
      created_at_opt = None, updated_at_opt = None, is_deleted_opt = None,
      sync_status_opt = None, server_id_opt = None, last_synced_at_opt = None\<rparr>"

definition example_task :: "string \<Rightarrow> timestamp \<Rightarrow> task" where
  \<comment> \<open>a pending, never synced record\<close>
  "example_task k u =
     \<lparr>id_task = k, title = ''task'', description = [], completed = False, created_at = u,
      updated_at = u, is_deleted = False, sync_status = Pending, server_id = None,
      last_synced_at = None\<rparr>"


definition example_world :: "task list \<Rightarrow> sync_queue_item list \<Rightarrow> world" where
  "example_world ts q = \<lparr>tasks = ts, sync_queue = q, reads = 0, posts = []\<rparr>"

definition example_clock :: "nat \<Rightarrow> timestamp" where
  "example_clock n = 1000 + int n"

definition same_tick :: "nat \<Rightarrow> timestamp" where
  \<comment> \<open>every reading falls into one millisecond\<close>
  "same_tick n = 2000"

definition result_for :: "string \<Rightarrow> string \<Rightarrow> sync_item_result" where
  "result_for t st =
     \<lparr>taskId = t, status = st, data_res = None, serverData = None, message = None\<rparr>"

definition answer_each :: "(string \<Rightarrow> string) \<Rightarrow> partial_task option \<Rightarrow> remote" where
  \<comment> \<open>a remote that answers every operation of a request, with a status chosen by record\<close>
  "answer_each st d h u req = Some (map (\<lambda>x. (result_for (fst x) (st (fst x)))\<lparr>data_res := d\<rparr>) req)"


definition default_config :: config where
  "default_config = \<lparr>apiUrl = ''http://localhost:3000/api'', SYNC_BATCH_SIZE = 10\<rparr>"

definition created :: "string list \<Rightarrow> world" where
  \<comment> \<open>the state after \<open>TaskService.createTask\<close> was called once for each of the ids,
      starting with empty tables\<close>
  "created ids =
     fold (\<lambda>k w. snd (createTask example_clock k (no_updates\<lparr>title_opt := Some ''task''\<rparr>) w))
       ids (example_world [] [])"

declare batches_loop.simps [code]

declare chunks.simps [simp del]

section \<open>The batching loop\<close>

text \<open>
  Given a queue and a positive batch size, the loop returns the partition into
  consecutive slices of at most that size.
\<close>

lemma batches_loop_chunks:
  "0 < b \<Longrightarrow> batches_loop b q i acc = Some (acc @ chunks b (drop i q))"
proof (induction "length q - i" arbitrary: i acc rule: less_induct)
  case less
  show ?case
  proof (cases "i < length q")
    case True
    have step: "batches_loop b q i acc = batches_loop b q (i + b) (acc @ [slice i (i + b) q])"
      by (subst batches_loop.simps) (simp add: True)
    have "length q - (i + b) < length q - i"
      using True less.prems by arith
    then have ih: "batches_loop b q (i + b) (acc @ [slice i (i + b) q]) =
        Some ((acc @ [slice i (i + b) q]) @ chunks b (drop (i + b) q))"
      using less.hyps less.prems by blast
    have ne: "drop i q \<noteq> []" using True by simp
    have "chunks b (drop i q) = take b (drop i q) # chunks b (drop b (drop i q))"
      using ne less.prems by (subst chunks.simps) simp
    then have "chunks b (drop i q) = slice i (i + b) q # chunks b (drop (i + b) q)"
      by (simp add: slice_def add.commute)
    with step ih show ?thesis by simp
  next
    case False
    then have "batches_loop b q i acc = Some acc"
      by (subst batches_loop.simps) simp
    moreover have "chunks b (drop i q) = []"
      using False by (subst chunks.simps) simp
    ultimately show ?thesis by simp
  qed
qed

lemma concat_chunks: "0 < b \<Longrightarrow> concat (chunks b xs) = xs"
proof (induction b xs rule: chunks.induct)
  case (1 b xs)
  show ?case
  proof (cases "xs = []")
    case True
    then show ?thesis by (subst chunks.simps) simp
  next
    case False
    with 1 show ?thesis by (subst chunks.simps) simp
  qed
qed

lemma chunks_bounded: "c \<in> set (chunks b xs) \<Longrightarrow> length c \<le> b \<and> c \<noteq> []"
proof (induction b xs rule: chunks.induct)
  case (1 b xs)
  show ?case
  proof (cases "b = 0 \<or> xs = []")
    case True
    with 1 show ?thesis by (subst (asm) (2) chunks.simps) simp
  next
    case False
    from "1.prems" False have "c = take b xs \<or> c \<in> set (chunks b (drop b xs))"
      by (subst (asm) chunks.simps) simp
    with 1 False show ?thesis by auto
  qed
qed

lemma ceil_step:
  fixes n b :: nat
  assumes "0 < b" "0 < n"
  shows "Suc ((n - b + b - 1) div b) = (n + b - 1) div b"
proof -
  have e2: "n + b - 1 = (n - 1) + b" using assms by arith
  have r: "(m + b) div b = Suc (m div b)" for m
    using assms(1) div_add_self2 [of b m] by simp
  show ?thesis
  proof (cases "b \<le> n")
    case True
    then have e1: "n - b + b - 1 = n - 1" by arith
    show ?thesis unfolding e1 e2 r ..
  next
    case False
    then have e1: "n - b + b - 1 = b - 1" by arith
    have z1: "(b - 1) div b = 0" using assms by simp
    have z2: "(n - 1) div b = 0" using False assms by simp
    show ?thesis unfolding e1 e2 r z1 z2 ..
  qed
qed

lemma length_chunks: "0 < b \<Longrightarrow> length (chunks b xs) = (length xs + b - 1) div b"
proof (induction b xs rule: chunks.induct)
  case (1 b xs)
  show ?case
  proof (cases "xs = []")
    case True
    with "1.prems" show ?thesis by (subst chunks.simps) simp
  next
    case False
    then have "length (chunks b xs) = Suc (length (chunks b (drop b xs)))"
      using "1.prems" by (subst chunks.simps) simp
    also have "\<dots> = Suc ((length xs - b + b - 1) div b)"
      using 1 False by simp
    also have "\<dots> = (length xs + b - 1) div b"
      using "1.prems" False by (intro ceil_step) simp_all
    finally show ?thesis .
  qed
qed

lemma chunks_25_10: "length xs = 25 \<Longrightarrow> map length (chunks 10 xs) = [10, 10, 5]"
proof -
  assume l: "length xs = 25"
  have a: "chunks 10 xs = take 10 xs # chunks 10 (drop 10 xs)"
    using l by (subst chunks.simps) auto
  have b: "chunks 10 (drop 10 xs) = take 10 (drop 10 xs) # chunks 10 (drop 20 xs)"
    using l by (subst chunks.simps) auto
  have c: "chunks 10 (drop 20 xs) = take 10 (drop 20 xs) # chunks 10 (drop 30 xs)"
    using l by (subst chunks.simps) auto
  have d: "chunks 10 (drop 30 xs) = []"
    using l by (subst chunks.simps) auto
  show ?thesis unfolding a b c d using l by simp
qed

section \<open>Every database call of the sync service is rejected\<close>





section \<open>The sync service only appends to the queue\<close>








section \<open>Conflict resolution\<close>

text \<open>
  C1 (as stated): \<open>resolveConflict(L, R)\<close> returns \<open>L\<close> when \<open>L.updated_at\<close> is
  strictly later, \<open>R\<close> when \<open>R.updated_at\<close> is strictly later, and \<open>L\<close> when the
  two timestamps are equal. The last part fails: with equal timestamps the
  comparison \<open>>\<close> is false and the server record is returned.
\<close>

theorem resolveConflict_tie_returns_server:
  "updated_at (example_task ''A'' 100) = updated_at ((example_task ''A'' 100)\<lparr>title := ''server copy''\<rparr>) \<and>
   resolveConflict (example_task ''A'' 100) ((example_task ''A'' 100)\<lparr>title := ''server copy''\<rparr>)
     \<noteq> example_task ''A'' 100"
  by (simp add: resolveConflict_def example_task_def)

text \<open>
  C1 (amended): the result depends on the two \<open>updated_at\<close> timestamps only as
  follows: the local record is returned when its timestamp is strictly later
  than the server's; in every other case, equal timestamps included, the
  server record is returned.
\<close>

theorem resolveConflict_strictly_later_local_wins:
  "(updated_at L > updated_at R \<longrightarrow> resolveConflict L R = L) \<and>
   (updated_at R > updated_at L \<longrightarrow> resolveConflict L R = R) \<and>
   (updated_at L = updated_at R \<longrightarrow> resolveConflict L R = R)"
  by (simp add: resolveConflict_def)

theorem resolveConflict_strictly_later_local_wins_witness:
  "resolveConflict (example_task ''A'' 200) (example_task ''B'' 100) = example_task ''A'' 200 \<and>
   resolveConflict (example_task ''A'' 100) (example_task ''B'' 200) = example_task ''B'' 200 \<and>
   resolveConflict (example_task ''A'' 100) (example_task ''B'' 100) = example_task ''B'' 100"
  using resolveConflict_strictly_later_local_wins
      [where L = "example_task ''A'' 200" and R = "example_task ''B'' 100"]
    resolveConflict_strictly_later_local_wins
      [where L = "example_task ''A'' 100" and R = "example_task ''B'' 200"]
    resolveConflict_strictly_later_local_wins
      [where L = "example_task ''A'' 100" and R = "example_task ''B'' 100"]
  by (simp add: example_task_def)

section \<open>Outcome handling\<close>

text \<open>
  C2: after a success outcome the record is \<open>synced\<close>, stamped, carries the
  fields the remote returned, its queue entry is gone and the success count
  has grown; one queued create for record \<open>A\<close>, answered with success, ends
  with an empty queue and \<open>A\<close> synced. The code does not get there: the first
  statement of \<open>sync()\<close> calls \<open>this.db.query\<close>, which \<open>Database\<close> does not have.
  After \<open>createTask\<close> for record \<open>A\<close>, a \<open>sync()\<close> call is rejected with a
  \<open>TypeError\<close>, posts nothing, and leaves \<open>A\<close> pending with its entry in the
  queue; \<open>updateSyncStatus\<close>, the handler of a success outcome, is rejected in
  the same way before it writes.
\<close>

theorem sync_rejects_before_success_is_recorded:
  "map_option (\<lambda>(r, w'). (r, map sync_status (tasks w'), map last_synced_at (tasks w'),
                           map (\<lambda>q. (task_id q, operation q)) (sync_queue w'), posts w'))
     (sync default_config example_clock (answer_each (\<lambda>t. ''success'') None) (created [''A'']))
   = Some (Inl TypeError, [Pending], [None], [(''A'', Create)], []) \<and>
   updateSyncStatus example_clock ''A'' Synced None (created [''A'']) =
     (Inl TypeError, created [''A''])"
  by code_simp


section \<open>Retry bookkeeping\<close>

text \<open>
  C4: on a failure outcome the item's \<open>retry_count\<close> grows by one, the error
  message is recorded, \<open>permanent_fail\<close> is set once the count reaches
  \<open>MAX_RETRY\<close>, the failed count grows, and the record's \<open>sync_status\<close> becomes
  \<open>error\<close>. The code does none of it: \<open>sync()\<close> is rejected at its first
  statement, and \<open>handleSyncError\<close>, the failure path, computes the new count
  and is then rejected by its own \<open>this.db.query\<close> before anything is written.
  Record \<open>C\<close> created and updated once, a remote that answers failure: the
  call is rejected with a \<open>TypeError\<close>, nothing is posted, both entries keep
  \<open>retry_count = 0\<close> with no error message, and \<open>C\<close> stays pending.
\<close>

theorem sync_rejects_before_failure_is_recorded:
  "(let w = snd (updateTask example_clock ''C'' (no_updates\<lparr>title_opt := Some ''v2''\<rparr>)
                  (created [''C'']))
    in (map_option (\<lambda>(r, w'). (r, map sync_status (tasks w'),
                                 map (\<lambda>q. (operation q, retry_count q, permanent_fail q, error q))
                                   (sync_queue w'), posts w'))
          (sync default_config example_clock (answer_each (\<lambda>t. ''failure'') None) w),
        map (\<lambda>item. handleSyncError item ''rejected'' w = (Inl TypeError, w)) (sync_queue w)))
   = (Some (Inl TypeError, [Pending],
            [(Create, 0, False, None), (Update, 0, False, None)], []),
      [True, True])"
  by code_simp




section \<open>Batching\<close>

text \<open>
  C7: \<open>sync()\<close> cuts the ordered queue into contiguous batches of at most
  \<open>SYNC_BATCH_SIZE\<close> items and posts one request per batch, three requests of
  10, 10 and 5 operations for 25 queued items. The code posts none: the
  \<open>this.db.query\<close> that is to read the queue is rejected, so the batching loop
  is never entered. Twenty-five records created, batch size 10: the queue
  holds 25 entries, \<open>sync()\<close> is rejected with a \<open>TypeError\<close> and no request is
  posted.
\<close>

theorem sync_posts_no_request:
  "(let w = created (map (\<lambda>n. ''T'' @ show_nat n) [1..<26])
    in (length (sync_queue w), SYNC_BATCH_SIZE default_config,
        map_option (\<lambda>(r, w'). (r, posts w'))
          (sync default_config example_clock (answer_each (\<lambda>t. ''success'') None) w)))
   = (25, 10, Some (Inl TypeError, []))"
  by code_simp

section \<open>Enqueue\<close>

text \<open>
  C8: every local mutation appends one queue entry with \<open>retry_count = 0\<close> and
  \<open>permanent_fail\<close> unset, so that \<open>k\<close> successive mutations of a record leave
  \<open>k\<close> distinct entries. The key of an entry is
  \<open>`${data.id}-${Date.now()}`\<close> (commented \<open>unique event id\<close>) in a
  \<open>PRIMARY KEY\<close> column: a second mutation of the same record within one
  millisecond is rejected by the table after the record itself was changed.
  Three updates of record \<open>A\<close> in one millisecond: the first is queued, the
  second and third raise, one entry is stored, and the record carries the
  third title.
\<close>

theorem three_updates_in_one_tick_leave_one_entry:
  "(let r1 = updateTask same_tick ''A'' (no_updates\<lparr>title_opt := Some ''v1''\<rparr>)
               (example_world [example_task ''A'' 100] []);
        r2 = updateTask same_tick ''A'' (no_updates\<lparr>title_opt := Some ''v2''\<rparr>) (snd r1);
        r3 = updateTask same_tick ''A'' (no_updates\<lparr>title_opt := Some ''v3''\<rparr>) (snd r2)
    in (isl (fst r1), fst r2, fst r3, map title (tasks (snd r3)),
        map (\<lambda>q. (queue_id q, operation q, retry_count q, permanent_fail q)) (sync_queue (snd r3))))
   = (False, Inl SQLITE_CONSTRAINT, Inl SQLITE_CONSTRAINT, [''v3''],
      [(Some ''A-2000'', Update, 0, False)])"
  by code_simp

text \<open>With distinct clock readings the three updates leave three entries, in order.\<close>

lemma three_updates_at_distinct_ticks:
  "(let r1 = updateTask example_clock ''A'' (no_updates\<lparr>title_opt := Some ''v1''\<rparr>)
               (example_world [example_task ''A'' 100] []);
        r2 = updateTask example_clock ''A'' (no_updates\<lparr>title_opt := Some ''v2''\<rparr>) (snd r1);
        r3 = updateTask example_clock ''A'' (no_updates\<lparr>title_opt := Some ''v3''\<rparr>) (snd r2)
    in (isl (fst r1), isl (fst r2), isl (fst r3),
        map (\<lambda>q. (id_item q, queue_id q, operation q, retry_count q, permanent_fail q))
          (sync_queue (snd r3))))
   = (False, False, False,
      [(1, Some ''A-1002'', Update, 0, False), (2, Some ''A-1005'', Update, 0, False),
       (3, Some ''A-1008'', Update, 0, False)])"
  by code_simp

section \<open>Connectivity probe\<close>

text \<open>
  C9: \<open>checkConnectivity()\<close> requests the health address with a timeout of
  5000 milliseconds, returns \<open>true\<close> when the request is answered and \<open>false\<close>
  when it is rejected (error or timeout), never throws, and leaves the tables,
  like the rest of the state, as they were.
\<close>

theorem checkConnectivity_returns_boolean_and_keeps_state:
  "checkConnectivity axios_get url w = (\<not> isl (axios_get (url @ ''/health'') 5000), w)"
  by (cases "axios_get (url @ ''/health'') 5000") (simp_all add: checkConnectivity_def)

section \<open>Matching results to queue items\<close>



end
